theory Spec2Isabelle
  imports Complex_Main "HOL-Library.Word"
begin

section \<open>Python values used by the tracker\<close>

subsection \<open>Exceptions\<close>

text \<open>
  The exceptions that can travel through \<open>main.py\<close>: \<open>OSError\<close> is raised by the
  adapter functions themselves, \<open>TclError\<close> by \<open>root.winfo_id()\<close>, \<open>ValueError\<close> and
  \<open>OverflowError\<close> by the builtins \<open>float\<close> and \<open>int\<close>. All four derive from
  \<open>Exception\<close>; only the first is an \<open>OSError\<close>.
\<close>

datatype exn = OSError string | TclError string | ValueError string | OverflowError string

fun exn_str :: "exn \<Rightarrow> string" where
  "exn_str (OSError m) = m"
| "exn_str (TclError m) = m"
| "exn_str (ValueError m) = m"
| "exn_str (OverflowError m) = m"

fun is_OSError :: "exn \<Rightarrow> bool" where
  "is_OSError (OSError m) = True"
| "is_OSError e = False"

subsection \<open>Floats\<close>

text \<open>
  A Python float is an IEEE binary64 value. A finite one is represented by the rational
  it denotes; the sign of zero is not represented (the clock never returns \<open>-0.0\<close>, and
  \<open>max(0.01, -0.0)\<close> is \<open>0.01\<close> like \<open>max(0.01, 0.0)\<close>).
\<close>

datatype pyfloat = Fin rat | PInf | NInf | NaN

definition pow2 :: "int \<Rightarrow> rat" where
  "pow2 e = (if 0 \<le> e then 2 ^ nat e else 1 / 2 ^ nat (- e))"

function bitlen :: "int \<Rightarrow> int" where
  "bitlen n = (if n \<le> 0 then 0 else 1 + bitlen (n div 2))"
  by pat_completeness auto
termination
  by (relation "measure nat") auto

declare bitlen.simps [simp del]

definition binade :: "rat \<Rightarrow> int" where
  \<comment> \<open>for \<open>q > 0\<close>: the \<open>e\<close> with \<open>2 ^ e \<le> q < 2 ^ (e + 1)\<close>\<close>
  "binade q = (if 1 \<le> q then bitlen \<lfloor>q\<rfloor> - 1 else - bitlen (\<lceil>1 / q\<rceil> - 1))"

definition round_half_even :: "rat \<Rightarrow> int" where
  "round_half_even q =
     (let f = \<lfloor>q\<rfloor>; r = q - of_int f
      in if r < 1 / 2 then f else if 1 / 2 < r then f + 1
         else if even f then f else f + 1)"

definition double_of_rat :: "rat \<Rightarrow> pyfloat" where
  \<comment> \<open>round to nearest, ties to even, 53 significant bits, gradual underflow,
      overflow to infinity\<close>
  "double_of_rat q =
     (if q = 0 then Fin 0
      else let a = \<bar>q\<bar>;
               e = max (binade a) (- 1022);
               u = pow2 (e - 52);
               v = of_int (round_half_even (a / u)) * u
           in if pow2 1024 \<le> v then (if 0 < q then PInf else NInf)
              else Fin (if 0 < q then v else - v))"

fun fneg :: "pyfloat \<Rightarrow> pyfloat" where
  "fneg (Fin a) = Fin (- a)"
| "fneg PInf = NInf"
| "fneg NInf = PInf"
| "fneg NaN = NaN"

fun fmul :: "pyfloat \<Rightarrow> pyfloat \<Rightarrow> pyfloat" where
  "fmul NaN b = NaN"
| "fmul a NaN = NaN"
| "fmul (Fin a) (Fin b) = double_of_rat (a * b)"
| "fmul (Fin a) b = (if a = 0 then NaN else if 0 < a then b else fneg b)"
| "fmul a (Fin b) = (if b = 0 then NaN else if 0 < b then a else fneg a)"
| "fmul PInf b = b"
| "fmul NInf b = fneg b"

fun fgt :: "pyfloat \<Rightarrow> pyfloat \<Rightarrow> bool" where
  \<comment> \<open>\<open>a > b\<close>\<close>
  "fgt NaN b = False"
| "fgt a NaN = False"
| "fgt (Fin a) (Fin b) = (b < a)"
| "fgt PInf PInf = False"
| "fgt PInf b = True"
| "fgt NInf b = False"
| "fgt (Fin a) PInf = False"
| "fgt (Fin a) NInf = True"

definition py_max :: "pyfloat \<Rightarrow> pyfloat \<Rightarrow> pyfloat" where
  \<comment> \<open>\<open>max(a, b)\<close>: the first argument stays unless the second is greater\<close>
  "py_max a b = (if fgt b a then b else a)"

fun py_int :: "pyfloat \<Rightarrow> exn + int" where
  \<comment> \<open>\<open>int(x)\<close>: truncation towards zero\<close>
  "py_int (Fin q) = Inr (if 0 \<le> q then \<lfloor>q\<rfloor> else \<lceil>q\<rceil>)"
| "py_int PInf = Inl (OverflowError ''cannot convert float infinity to integer'')"
| "py_int NInf = Inl (OverflowError ''cannot convert float infinity to integer'')"
| "py_int NaN = Inl (ValueError ''cannot convert float NaN to integer'')"

subsection \<open>Decimal text\<close>

definition digit_char :: "nat \<Rightarrow> char" where
  "digit_char d = ''0123456789'' ! d"

function dec :: "nat \<Rightarrow> string" where
  "dec n = (if n < 10 then [digit_char n] else dec (n div 10) @ [digit_char (n mod 10)])"
  by pat_completeness auto
termination
  by (relation "measure id") auto

declare dec.simps [simp del]

definition str_int :: "int \<Rightarrow> string" where
  \<comment> \<open>\<open>str(n)\<close>, also what the presentation type \<open>d\<close> prints before padding\<close>
  "str_int n = (if n < 0 then CHR ''-'' # dec (nat (- n)) else dec (nat n))"

definition rjust :: "nat \<Rightarrow> string \<Rightarrow> string" where
  \<comment> \<open>a minimum field width: numbers are right-aligned, padded with spaces\<close>
  "rjust w s = replicate (w - length s) CHR '' '' @ s"

definition format_d :: "nat \<Rightarrow> int \<Rightarrow> string" where
  \<comment> \<open>the format spec \<open>{n:<w>d}\<close>\<close>
  "format_d w n = rjust w (str_int n)"

definition zfill :: "nat \<Rightarrow> string \<Rightarrow> string" where
  "zfill w s = replicate (w - length s) CHR ''0'' @ s"

definition fixed :: "nat \<Rightarrow> rat \<Rightarrow> string" where
  \<comment> \<open>the digits of \<open>q\<close> with \<open>p\<close> decimals, correctly rounded, ties to even\<close>
  "fixed p q =
     (let m = nat (round_half_even (\<bar>q\<bar> * 10 ^ p))
      in (if q < 0 then [CHR ''-''] else []) @ dec (m div 10 ^ p) @
         (if p = 0 then [] else CHR ''.'' # zfill p (dec (m mod 10 ^ p))))"

fun format_f :: "nat \<Rightarrow> nat \<Rightarrow> pyfloat \<Rightarrow> string" where
  \<comment> \<open>the format spec \<open>{x:<w>.<p>f}\<close>\<close>
  "format_f w p (Fin q) = rjust w (fixed p q)"
| "format_f w p PInf = rjust w ''inf''"
| "format_f w p NInf = rjust w ''-inf''"
| "format_f w p NaN = rjust w ''nan''"

subsection \<open>The builtin \<open>float\<close> on a string\<close>

text \<open>
  \<open>float(s)\<close> strips white space and accepts an optional sign followed by \<open>inf\<close>,
  \<open>infinity\<close> or \<open>nan\<close> in any case, or by a decimal number with an optional exponent,
  where single underscores may separate digits; the result is the nearest double.
  Anything else raises \<open>ValueError\<close>. Arguments are taken to be ASCII.
\<close>

definition is_space :: "char \<Rightarrow> bool" where
  "is_space c = (c = CHR '' '' \<or> (9 \<le> (of_char c :: nat) \<and> (of_char c :: nat) \<le> 13)
     \<or> (28 \<le> (of_char c :: nat) \<and> (of_char c :: nat) \<le> 31))"

definition strip :: "string \<Rightarrow> string" where
  "strip s = rev (dropWhile is_space (rev (dropWhile is_space s)))"

definition is_digit :: "char \<Rightarrow> bool" where
  "is_digit c = (48 \<le> (of_char c :: nat) \<and> (of_char c :: nat) \<le> 57)"

definition digit_val :: "char \<Rightarrow> nat" where
  "digit_val c = of_char c - 48"

definition lower :: "char \<Rightarrow> char" where
  "lower c = (if 65 \<le> (of_char c :: nat) \<and> (of_char c :: nat) \<le> 90
              then char_of ((of_char c :: nat) + 32) else c)"

fun digits_more :: "string \<Rightarrow> nat list \<times> string" where
  \<comment> \<open>\<open>(["_"] digit)*\<close>\<close>
  "digits_more [] = ([], [])"
| "digits_more [c] = (if is_digit c then ([digit_val c], []) else ([], [c]))"
| "digits_more (c # d # cs) =
     (if is_digit c then (case digits_more (d # cs) of (ds, r) \<Rightarrow> (digit_val c # ds, r))
      else if c = CHR ''_'' \<and> is_digit d
           then (case digits_more cs of (ds, r) \<Rightarrow> (digit_val d # ds, r))
      else ([], c # d # cs))"

fun digitpart :: "string \<Rightarrow> (nat list \<times> string) option" where
  \<comment> \<open>\<open>digit (["_"] digit)*\<close>\<close>
  "digitpart [] = None"
| "digitpart (c # cs) =
     (if is_digit c then (case digits_more cs of (ds, r) \<Rightarrow> Some (digit_val c # ds, r))
      else None)"

definition number :: "string \<Rightarrow> ((nat list \<times> nat list) \<times> string) option" where
  \<comment> \<open>\<open>[digitpart] "." digitpart | digitpart ["."]\<close>: the integer digits, the fraction
      digits and the rest\<close>
  "number s =
     (case digitpart s of
        Some (ip, r) \<Rightarrow>
          (case r of
             [] \<Rightarrow> Some ((ip, []), [])
           | c # r' \<Rightarrow>
               if c = CHR ''.''
               then (case digitpart r' of
                       Some (fp, r'') \<Rightarrow> Some ((ip, fp), r'')
                     | None \<Rightarrow> Some ((ip, []), r'))
               else Some ((ip, []), r))
      | None \<Rightarrow>
          (case s of
             [] \<Rightarrow> None
           | c # r' \<Rightarrow>
               if c = CHR ''.''
               then (case digitpart r' of
                       Some (fp, r'') \<Rightarrow> Some (([], fp), r'')
                     | None \<Rightarrow> None)
               else None))"

definition sign :: "string \<Rightarrow> bool \<times> string" where
  \<comment> \<open>an optional sign: whether it is a minus, and the rest\<close>
  "sign s =
     (case s of
        [] \<Rightarrow> (False, [])
      | c # r \<Rightarrow> if c = CHR ''-'' then (True, r) else if c = CHR ''+'' then (False, r)
                 else (False, s))"

definition digits_value :: "nat list \<Rightarrow> nat" where
  "digits_value ds = foldl (\<lambda>a d. 10 * a + d) 0 ds"

definition exponent :: "string \<Rightarrow> (int \<times> string) option" where
  \<comment> \<open>\<open>[("e" | "E") [sign] digitpart]\<close>; \<open>None\<close> when an \<open>e\<close> has no digits after it\<close>
  "exponent s =
     (case s of
        [] \<Rightarrow> Some (0, [])
      | c # r \<Rightarrow>
          if c = CHR ''e'' \<or> c = CHR ''E''
          then (case sign r of
                  (neg, r1) \<Rightarrow>
                    (case digitpart r1 of
                       Some (ds, r2) \<Rightarrow>
                         Some (if neg then - int (digits_value ds) else int (digits_value ds), r2)
                     | None \<Rightarrow> None))
          else Some (0, s))"

definition pow10 :: "int \<Rightarrow> rat" where
  "pow10 e = (if 0 \<le> e then 10 ^ nat e else 1 / 10 ^ nat (- e))"

definition floatnumber :: "string \<Rightarrow> rat option" where
  \<comment> \<open>\<open>number [exponent]\<close> up to the end of the text, as the exact decimal value\<close>
  "floatnumber s =
     (case number s of
        None \<Rightarrow> None
      | Some ((ip, fp), r) \<Rightarrow>
          (case exponent r of
             None \<Rightarrow> None
           | Some (ex, r') \<Rightarrow>
               if r' = [] then Some (of_nat (digits_value (ip @ fp)) * pow10 (ex - int (length fp)))
               else None))"

definition float_of_str :: "string \<Rightarrow> exn + pyfloat" where
  "float_of_str s =
     (case sign (strip s) of
        (neg, r) \<Rightarrow>
          (let w = map lower r
           in if w = ''inf'' \<or> w = ''infinity'' then Inr (if neg then NInf else PInf)
              else if w = ''nan'' then Inr NaN
              else (case floatnumber r of
                      None \<Rightarrow> Inl (ValueError (''could not convert string to float: '' @ s))
                    | Some q \<Rightarrow> Inr (double_of_rat (if neg then - q else q)))))"

section \<open>The OS query adapter\<close>

text \<open>
  \<open>POINT\<close> and \<open>RECT\<close> are the ctypes structures of \<open>main.py\<close>: their fields are
  \<open>LONG\<close>, 32 bits and signed. Reading a field gives a Python integer (\<open>sint\<close>), and
  the arithmetic on what was read is Python's, without wrap-around.
\<close>

record POINT =
  pt_x :: "32 word"
  pt_y :: "32 word"

record RECT =
  rc_left :: "32 word"
  rc_top :: "32 word"
  rc_right :: "32 word"
  rc_bottom :: "32 word"

text \<open>
  The world a tick runs in: what each Win32 entry point answers at that moment
  (\<open>None\<close> when it returns \<open>FALSE\<close>), what Tk's \<open>winfo_id\<close> answers, and the reading
  of \<open>time.perf_counter\<close>, a finite double. \<open>GetDpiForWindow\<close> raises where the entry
  point does not exist.
\<close>

record os =
  GetCursorPos :: "POINT option"
  GetWindowRect :: "int \<Rightarrow> RECT option"
  GetClientRect :: "int \<Rightarrow> RECT option"
  ClientToScreen :: "int \<Rightarrow> POINT \<Rightarrow> POINT option"
  ScreenToClient :: "int \<Rightarrow> POINT \<Rightarrow> POINT option"
  GetDpiForWindow :: "int \<Rightarrow> exn + 32 word"
  winfo_id :: "exn + int"
  perf_counter :: rat

type_synonym rect = "int \<times> int \<times> int \<times> int"

definition get_cursor_pos :: "os \<Rightarrow> exn + int \<times> int" where
  "get_cursor_pos w =
     (case GetCursorPos w of
        None \<Rightarrow> Inl (OSError ''GetCursorPos failed'')
      | Some p \<Rightarrow> Inr (sint (pt_x p), sint (pt_y p)))"

definition get_window_rect :: "os \<Rightarrow> int \<Rightarrow> exn + rect" where
  "get_window_rect w hwnd =
     (case GetWindowRect w hwnd of
        None \<Rightarrow> Inl (OSError ''GetWindowRect failed'')
      | Some r \<Rightarrow> Inr (sint (rc_left r), sint (rc_top r), sint (rc_right r), sint (rc_bottom r)))"

definition get_client_rect_screen :: "os \<Rightarrow> int \<Rightarrow> exn + rect" where
  "get_client_rect_screen w hwnd =
     (case GetClientRect w hwnd of
        None \<Rightarrow> Inl (OSError ''GetClientRect failed'')
      | Some rc \<Rightarrow>
          (case ClientToScreen w hwnd \<lparr>pt_x = 0, pt_y = 0\<rparr> of
             None \<Rightarrow> Inl (OSError ''ClientToScreen failed'')
           | Some pt \<Rightarrow>
               (let left = sint (pt_x pt); top = sint (pt_y pt);
                    width = sint (rc_right rc) - sint (rc_left rc);
                    height = sint (rc_bottom rc) - sint (rc_top rc)
                in Inr (left, top, left + width, top + height))))"

definition screen_to_client :: "os \<Rightarrow> int \<Rightarrow> int \<Rightarrow> int \<Rightarrow> exn + int \<times> int" where
  \<comment> \<open>\<open>POINT(x, y)\<close> stores the low 32 bits of each integer\<close>
  "screen_to_client w hwnd x y =
     (case ScreenToClient w hwnd \<lparr>pt_x = word_of_int x, pt_y = word_of_int y\<rparr> of
        None \<Rightarrow> Inl (OSError ''ScreenToClient failed'')
      | Some p \<Rightarrow> Inr (sint (pt_x p), sint (pt_y p)))"

definition try_except ::
  "(exn + 'a) \<Rightarrow> (exn \<Rightarrow> bool) \<Rightarrow> (exn \<Rightarrow> exn + 'a) \<Rightarrow> exn + 'a" where
  \<comment> \<open>\<open>try: body  except <class> as e: handler\<close>\<close>
  "try_except body caught handler =
     (case body of
        Inl e \<Rightarrow> if caught e then handler e else Inl e
      | Inr v \<Rightarrow> Inr v)"

definition is_Exception :: "exn \<Rightarrow> bool" where
  "is_Exception e = True"

definition get_window_dpi :: "os \<Rightarrow> int \<Rightarrow> exn + int option" where
  "get_window_dpi w hwnd =
     try_except
       (case GetDpiForWindow w hwnd of Inl e \<Rightarrow> Inl e | Inr d \<Rightarrow> Inr (Some (uint d)))
       is_Exception (\<lambda>e. Inr None)"

section \<open>The application\<close>

datatype query =
  QWinfoId | QCursorPos | QWindowRect int | QClientRectScreen int
  | QScreenToClient int int int | QPerfCounter | QWindowDpi int

text \<open>
  The state of a \<open>TrackerApp\<close> and of what it writes to: the fields \<open>interval\<close>,
  \<open>_stop\<close> and \<open>hwnd\<close>; whether \<open>root.quit()\<close> has taken effect; the delays of the
  pending \<open>root.after(ms, self._tick)\<close> calls; the lines printed to standard output and to
  standard error; the exceptions that left a callback; and the queries made so far.
\<close>

record app =
  interval :: pyfloat
  stop_flag :: bool
  hwnd :: "int option"
  quit_requested :: bool
  timers :: "int list"
  stdout :: "string list"
  stderr :: "string list"
  uncaught :: "exn list"
  queries :: "query list"

definition asked :: "query \<Rightarrow> app \<Rightarrow> app" where
  "asked q s = s\<lparr>queries := queries s @ [q]\<rparr>"

definition if_hwnd :: "int option \<Rightarrow> (int \<Rightarrow> 'a) \<Rightarrow> 'a \<Rightarrow> 'a" where
  \<comment> \<open>\<open>f(self.hwnd) if self.hwnd else d\<close>: \<open>None\<close> and \<open>0\<close> are false\<close>
  "if_hwnd h f d = (case h of None \<Rightarrow> d | Some n \<Rightarrow> if n = 0 then d else f n)"

record sample =
  now :: rat
  mouse :: "int \<times> int"
  wrect :: rect
  crect :: rect
  rel :: "int \<times> int"

definition format_line :: "sample \<Rightarrow> string" where
  "format_line v =
     (case (mouse v, wrect v, crect v, rel v) of
        ((mx, my), (w0, w1, w2, w3), (c0, c1, c2, c3), (relx, rely)) \<Rightarrow>
          ''t='' @ format_f 9 3 (Fin (now v)) @ ''  '' @
          ''mouse=('' @ format_d 5 mx @ '','' @ format_d 5 my @ '')  '' @
          ''win=['' @ format_d 5 w0 @ '','' @ format_d 5 w1 @ '','' @ format_d 5 w2 @ '',''
            @ format_d 5 w3 @ '']  '' @
          ''client=['' @ format_d 5 c0 @ '','' @ format_d 5 c1 @ '','' @ format_d 5 c2 @ '',''
            @ format_d 5 c3 @ '']  '' @
          ''mouse_in_client=('' @ format_d 5 relx @ '','' @ format_d 5 rely @ '')'')"

definition ensure_hwnd :: "os \<Rightarrow> app \<Rightarrow> exn option \<times> app" where
  \<comment> \<open>\<open>if not self.hwnd: self.hwnd = int(self.root.winfo_id())\<close>\<close>
  "ensure_hwnd w s =
     if_hwnd (hwnd s) (\<lambda>h. (None, s))
       (case winfo_id w of
          Inl e \<Rightarrow> (Some e, asked QWinfoId s)
        | Inr h \<Rightarrow> (None, (asked QWinfoId s)\<lparr>hwnd := Some h\<rparr>))"

definition gather :: "os \<Rightarrow> app \<Rightarrow> (exn + sample) \<times> app" where
  \<comment> \<open>the queries of one tick, in the order of the source; the first exception that is
      not handled on the spot ends them\<close>
  "gather w s =
     (let s1 = asked QCursorPos s
      in case get_cursor_pos w of
           Inl e \<Rightarrow> (Inl e, s1)
         | Inr (mx, my) \<Rightarrow>
             (let s2 = if_hwnd (hwnd s1) (\<lambda>h. asked (QWindowRect h) s1) s1
              in case if_hwnd (hwnd s1) (get_window_rect w) (Inr (0, 0, 0, 0)) of
                   Inl e \<Rightarrow> (Inl e, s2)
                 | Inr wr \<Rightarrow>
                     (let s3 = if_hwnd (hwnd s2) (\<lambda>h. asked (QClientRectScreen h) s2) s2
                      in case if_hwnd (hwnd s2) (get_client_rect_screen w) (Inr (0, 0, 0, 0)) of
                           Inl e \<Rightarrow> (Inl e, s3)
                         | Inr cr \<Rightarrow>
                             (let s4 = if_hwnd (hwnd s3)
                                         (\<lambda>h. asked (QScreenToClient h mx my) s3) s3
                              in case try_except
                                        (if_hwnd (hwnd s3) (\<lambda>h. screen_to_client w h mx my)
                                           (Inr (0, 0)))
                                        is_OSError (\<lambda>e. Inr (0, 0)) of
                                   Inl e \<Rightarrow> (Inl e, s4)
                                 | Inr r \<Rightarrow>
                                     (Inr \<lparr>now = perf_counter w, mouse = (mx, my), wrect = wr,
                                            crect = cr, rel = r\<rparr>,
                                      asked QPerfCounter s4)))))"

definition tick_try :: "os \<Rightarrow> app \<Rightarrow> exn option \<times> app" where
  \<comment> \<open>the body of the \<open>try\<close> in \<open>_tick\<close>\<close>
  "tick_try w s =
     (case ensure_hwnd w s of
        (Some e, s1) \<Rightarrow> (Some e, s1)
      | (None, s1) \<Rightarrow>
          (case gather w s1 of
             (Inl e, s2) \<Rightarrow> (Some e, s2)
           | (Inr v, s2) \<Rightarrow> (None, s2\<lparr>stdout := stdout s2 @ [format_line v]\<rparr>)))"

definition tick :: "os \<Rightarrow> app \<Rightarrow> exn option \<times> app" where
  \<comment> \<open>\<open>TrackerApp._tick\<close>: the exception that leaves it, if any, and the state after\<close>
  "tick w s =
     (if stop_flag s then (None, s)
      else let s1 = (case tick_try w s of
                       (Some e, s') \<Rightarrow> s'\<lparr>stderr := stderr s' @ [''[error] '' @ exn_str e]\<rparr>
                     | (None, s') \<Rightarrow> s')
           in case py_int (fmul (interval s1) (Fin 1000)) of
                Inl e \<Rightarrow> (Some e, s1)
              | Inr ms \<Rightarrow> (None, s1\<lparr>timers := timers s1 @ [ms]\<rparr>))"

definition stop :: "bool \<Rightarrow> app \<Rightarrow> app" where
  \<comment> \<open>\<open>TrackerApp.stop\<close>; \<open>quit_ok\<close> tells whether \<open>root.quit()\<close> went through (an
      exception from it is swallowed)\<close>
  "stop quit_ok s = s\<lparr>stop_flag := True, quit_requested := quit_requested s \<or> quit_ok\<rparr>"

definition dpi_banner :: "int option \<Rightarrow> string list" where
  \<comment> \<open>\<open>if dpi: print(f"Window DPI: {dpi}  (scale x{dpi/96.0:.2f})")\<close>\<close>
  "dpi_banner dpi =
     (case dpi of
        None \<Rightarrow> []
      | Some d \<Rightarrow>
          if d = 0 then []
          else [''Window DPI: '' @ str_int d @ ''  (scale x'' @
                format_f 0 2 (double_of_rat (of_int d / 96)) @ '')''])"

definition TrackerApp_init :: "os \<Rightarrow> pyfloat \<Rightarrow> exn + app" where
  \<comment> \<open>\<open>TrackerApp.__init__\<close>; \<open>float(interval_sec)\<close> leaves a float as it is\<close>
  "TrackerApp_init w interval_sec =
     (let h = (case winfo_id w of Inl e \<Rightarrow> None | Inr n \<Rightarrow> Some n);
          banner = ''Tracking started. Press Esc in the window or Ctrl+C in the console to quit.''
      in case if_hwnd h (get_window_dpi w) (Inr None) of
           Inl e \<Rightarrow> Inl e
         | Inr dpi \<Rightarrow>
             Inr \<lparr>interval = py_max (double_of_rat (1 / 100)) interval_sec,
                  stop_flag = False,
                  hwnd = h,
                  quit_requested = False,
                  timers = [0],
                  stdout = banner # dpi_banner dpi,
                  stderr = [],
                  uncaught = [],
                  queries = QWinfoId # if_hwnd h (\<lambda>n. [QWindowDpi n]) []\<rparr>)"

definition parse_interval :: "string list \<Rightarrow> pyfloat \<times> string list" where
  \<comment> \<open>the argument handling of \<open>main\<close>: the interval and the lines for standard error\<close>
  "parse_interval argv =
     (if 1 < length argv
      then (case float_of_str (argv ! 1) of
              Inr v \<Rightarrow> (v, [])
            | Inl e \<Rightarrow> (double_of_rat (1 / 10),
                        [''Usage: python tracker_cli.py [interval_seconds]'']))
      else (double_of_rat (1 / 10), []))"

definition main :: "os \<Rightarrow> string list \<Rightarrow> exn + app" where
  \<comment> \<open>\<open>main\<close> up to \<open>app.run()\<close>; the signal handler and the DPI awareness setting leave
      no trace in the state\<close>
  "main w argv =
     (case parse_interval argv of
        (iv, err) \<Rightarrow>
          (case TrackerApp_init w iv of
             Inl e \<Rightarrow> Inl e
           | Inr a \<Rightarrow> Inr (a\<lparr>stderr := err\<rparr>)))"

fun mainloop :: "os list \<Rightarrow> app \<Rightarrow> app" where
  \<comment> \<open>\<open>root.mainloop()\<close> as far as the timers go: each pending callback fires in its turn,
      in the world of that moment, until \<open>quit\<close> or until none is pending; Tk reports an
      exception that leaves a callback and goes on\<close>
  "mainloop [] s = s"
| "mainloop (w # ws) s =
     (if quit_requested s then s
      else case timers s of
             [] \<Rightarrow> s
           | ms # rest \<Rightarrow>
               (case tick w (s\<lparr>timers := rest\<rparr>) of
                  (None, s') \<Rightarrow> mainloop ws s'
                | (Some e, s') \<Rightarrow> mainloop ws (s'\<lparr>uncaught := uncaught s' @ [e]\<rparr>)))"

section \<open>Example worlds and states\<close>

text \<open>
  A world in which every query succeeds: the cursor at (1200, 640), the tracked window at
  [100, 100, 500, 340] with a 384 by 200 client area whose origin is at (108, 132) on
  screen, 144 DPI, the clock at 12.375 seconds. The others differ from it in one answer.
\<close>

definition world_ok :: os where
  "world_ok =
     \<lparr>GetCursorPos = Some \<lparr>pt_x = 1200, pt_y = 640\<rparr>,
      GetWindowRect =
        (\<lambda>h. Some \<lparr>rc_left = 100, rc_top = 100, rc_right = 500, rc_bottom = 340\<rparr>),
      GetClientRect =
        (\<lambda>h. Some \<lparr>rc_left = 0, rc_top = 0, rc_right = 384, rc_bottom = 200\<rparr>),
      ClientToScreen = (\<lambda>h p. Some \<lparr>pt_x = pt_x p + 108, pt_y = pt_y p + 132\<rparr>),
      ScreenToClient = (\<lambda>h p. Some \<lparr>pt_x = pt_x p - 108, pt_y = pt_y p - 132\<rparr>),
      GetDpiForWindow = (\<lambda>h. Inr 144),
      winfo_id = Inr 66000,
      perf_counter = 99 / 8\<rparr>"

definition world_no_cursor :: os where
  "world_no_cursor = world_ok\<lparr>GetCursorPos := None\<rparr>"

definition world_no_window_rect :: os where
  "world_no_window_rect = world_ok\<lparr>GetWindowRect := (\<lambda>h. None)\<rparr>"

definition world_no_translation :: os where
  "world_no_translation = world_ok\<lparr>ScreenToClient := (\<lambda>h p. None)\<rparr>"

definition world_no_handle :: os where
  "world_no_handle = world_ok\<lparr>winfo_id := Inl (TclError ''bad window path name'')\<rparr>"

definition world_zero_handle :: os where
  "world_zero_handle = world_ok\<lparr>winfo_id := Inr 0\<rparr>"

definition world_zero_handle_no_cursor :: os where
  "world_zero_handle_no_cursor = world_zero_handle\<lparr>GetCursorPos := None\<rparr>"

definition app_running :: app where
  "app_running =
     \<lparr>interval = double_of_rat (1 / 10), stop_flag = False, hwnd = Some 66000,
      quit_requested = False, timers = [], stdout = [], stderr = [], uncaught = [],
      queries = []\<rparr>"

definition app_unresolved :: app where
  "app_unresolved = app_running\<lparr>hwnd := None\<rparr>"

text \<open>
  The states that \<open>main\<close> reaches, at the first tick, with the arguments \<open>inf\<close> and
  \<open>1e306\<close>; the double nearest to the latter is 6413338752028713 * 2 ^ 964.
\<close>

definition app_inf :: app where
  "app_inf = app_running\<lparr>interval := PInf\<rparr>"

definition app_1e306 :: app where
  "app_1e306 = app_running\<lparr>interval := Fin (6413338752028713 * 2 ^ 964)\<rparr>"

section \<open>Properties\<close>

subsection \<open>The stop flag\<close>

lemma tick_stopped: "stop_flag s \<Longrightarrow> tick w s = (None, s)"
  by (simp add: tick_def)

lemma mainloop_stopped:
  "stop_flag s \<Longrightarrow> \<exists>k. mainloop ws s = s\<lparr>timers := drop k (timers s)\<rparr>"
proof (induction ws arbitrary: s)
  case Nil
  have "mainloop [] s = s\<lparr>timers := drop 0 (timers s)\<rparr>" by simp
  then show ?case by blast
next
  case (Cons w ws)
  show ?case
  proof (cases "quit_requested s \<or> timers s = []")
    case True
    then have "mainloop (w # ws) s = s\<lparr>timers := drop 0 (timers s)\<rparr>"
      by (auto split: list.splits)
    then show ?thesis by blast
  next
    case False
    then obtain ms rest where t: "timers s = ms # rest" and nq: "\<not> quit_requested s"
      by (cases "timers s") auto
    let ?s = "s\<lparr>timers := rest\<rparr>"
    have st: "stop_flag ?s" using Cons.prems by simp
    from Cons.IH [OF st] obtain k
      where k: "mainloop ws ?s = ?s\<lparr>timers := drop k (timers ?s)\<rparr>"
      by blast
    have "mainloop (w # ws) s = mainloop ws ?s"
      using t nq st by (simp add: tick_stopped)
    also have "\<dots> = s\<lparr>timers := drop (Suc k) (timers s)\<rparr>"
      using k t by simp
    finally show ?thesis by blast
  qed
qed

text \<open>
  C3. \<open>_tick\<close> looks at the stop flag before anything else. With the flag set it returns
  the state as it found it: no query is added to the log, nothing is printed on either
  stream, no timer is added. The event loop that goes on from such a state, over any
  sequence of worlds, changes nothing but the pending timers, which it only uses up: no
  further output appears and no tick is scheduled again.
\<close>

theorem stopped_tick_noop:
  assumes "stop_flag s"
  shows "tick w s = (None, s) \<and> (\<exists>k. mainloop ws s = s\<lparr>timers := drop k (timers s)\<rparr>)"
  using assms tick_stopped mainloop_stopped by blast

theorem stopped_tick_noop_witness:
  "stop_flag (stop True app_running) \<and>
   tick world_ok (stop True app_running) = (None, stop True app_running) \<and>
   queries (snd (tick world_ok (stop True app_running))) = []"
proof -
  have h: "stop_flag (stop True app_running)" by (simp add: stop_def)
  from stopped_tick_noop [OF h, of world_ok "[]"]
  have "tick world_ok (stop True app_running) = (None, stop True app_running)" by blast
  then show ?thesis using h by (simp add: stop_def app_running_def)
qed

subsection \<open>The client rectangle on screen\<close>

text \<open>
  C4. Where \<open>GetClientRect\<close> and \<open>ClientToScreen\<close> both succeed for a handle,
  \<open>get_client_rect_screen\<close> returns (left, top, left + width, top + height): (left, top)
  is the client origin as translated to the screen, width and height are those of the
  raw client rectangle. So right - left is the raw width and bottom - top the raw height.
\<close>

theorem client_rect_screen_size:
  assumes "GetClientRect w h = Some rc"
    and "ClientToScreen w h \<lparr>pt_x = 0, pt_y = 0\<rparr> = Some pt"
  shows "\<exists>l t r b. get_client_rect_screen w h = Inr (l, t, r, b) \<and>
           l = sint (pt_x pt) \<and> t = sint (pt_y pt) \<and>
           r = l + (sint (rc_right rc) - sint (rc_left rc)) \<and>
           b = t + (sint (rc_bottom rc) - sint (rc_top rc)) \<and>
           r - l = sint (rc_right rc) - sint (rc_left rc) \<and>
           b - t = sint (rc_bottom rc) - sint (rc_top rc)"
  using assms by (simp add: get_client_rect_screen_def Let_def)

theorem client_rect_screen_size_witness:
  "GetClientRect world_ok 66000 =
     Some \<lparr>rc_left = 0, rc_top = 0, rc_right = 384, rc_bottom = 200\<rparr> \<and>
   ClientToScreen world_ok 66000 \<lparr>pt_x = 0, pt_y = 0\<rparr> = Some \<lparr>pt_x = 108, pt_y = 132\<rparr> \<and>
   get_client_rect_screen world_ok 66000 = Inr (108, 132, 492, 332)"
proof -
  have a: "GetClientRect world_ok 66000 =
             Some \<lparr>rc_left = 0, rc_top = 0, rc_right = 384, rc_bottom = 200\<rparr>"
    by (simp add: world_ok_def)
  have b: "ClientToScreen world_ok 66000 \<lparr>pt_x = 0, pt_y = 0\<rparr> = Some \<lparr>pt_x = 108, pt_y = 132\<rparr>"
    by (simp add: world_ok_def)
  from client_rect_screen_size [OF a b] show ?thesis using a b by simp
qed

subsection \<open>The DPI query\<close>

text \<open>
  C8. \<open>get_window_dpi\<close> never raises: for every handle it returns the DPI as an integer
  when \<open>GetDpiForWindow\<close> answers, and \<open>None\<close> when the call raises, as it does where the
  platform has no such entry point.
\<close>

theorem get_window_dpi_never_raises:
  "get_window_dpi w h =
     Inr (case GetDpiForWindow w h of Inl e \<Rightarrow> None | Inr d \<Rightarrow> Some (uint d))"
  by (simp add: get_window_dpi_def try_except_def is_Exception_def split: sum.splits)

subsection \<open>Evaluating floats\<close>

lemma floor_rat_numeral [simp]:
  "\<lfloor>(numeral a :: rat) / numeral b\<rfloor> = numeral a div numeral b"
  by (metis floor_divide_of_int_eq of_int_numeral)

lemma ceiling_rat_numeral [simp]:
  "\<lceil>(numeral a :: rat) / numeral b\<rceil> = - (- numeral a div numeral b)"
  by (metis ceiling_divide_eq_div of_int_numeral)

lemma floor_rat_one [simp]: "\<lfloor>(1 :: rat) / numeral b\<rfloor> = 1 div numeral b"
  by (metis floor_divide_of_int_eq of_int_numeral of_int_1)

lemmas double_defs = double_of_rat_def Let_def pow2_def round_half_even_def

lemmas parser_defs = float_of_str_def floatnumber_def number_def exponent_def sign_def strip_def
  is_space_def is_digit_def digit_val_def lower_def digits_value_def pow10_def

lemma binade_hundredth: "binade (1 / 100) = - 7"
  by (simp add: binade_def bitlen.simps)

lemma binade_tenth: "binade (1 / 10) = - 4"
  by (simp add: binade_def bitlen.simps)



lemma double_hundredth:
  "double_of_rat (1 / 100) = Fin (5764607523034235 / 576460752303423488)"
  by (simp add: double_defs binade_hundredth)

lemma double_tenth: "double_of_rat (1 / 10) = Fin (3602879701896397 / 36028797018963968)"
  by (simp add: double_defs binade_tenth)



lemma py_max_Fin: "py_max (Fin a) (Fin b) = Fin (max a b)"
  by (simp add: py_max_def max_def)


subsection \<open>The interval argument\<close>

lemma TrackerApp_init_total:
  "\<exists>a. TrackerApp_init w iv = Inr a \<and> interval a = py_max (double_of_rat (1 / 100)) iv \<and>
        stderr a = [] \<and> \<not> stop_flag a \<and> timers a = [0]"
  by (simp add: TrackerApp_init_def Let_def if_hwnd_def get_window_dpi_def try_except_def
        is_Exception_def split: sum.splits option.splits)

lemma main_total:
  "\<exists>a. main w argv = Inr a \<and>
        interval a = py_max (double_of_rat (1 / 100)) (fst (parse_interval argv)) \<and>
        stderr a = snd (parse_interval argv) \<and> \<not> stop_flag a \<and> timers a = [0]"
proof -
  obtain iv err where p: "parse_interval argv = (iv, err)" by (cases "parse_interval argv")
  obtain a where a: "TrackerApp_init w iv = Inr a"
    "interval a = py_max (double_of_rat (1 / 100)) iv" "\<not> stop_flag a" "timers a = [0]"
    using TrackerApp_init_total by blast
  show ?thesis using p a by (simp add: main_def)
qed










subsection \<open>One tick\<close>

lemma asked_fields [simp]:
  "stdout (asked q s) = stdout s" "stderr (asked q s) = stderr s"
  "timers (asked q s) = timers s" "interval (asked q s) = interval s"
  "stop_flag (asked q s) = stop_flag s" "hwnd (asked q s) = hwnd s"
  "queries (asked q s) = queries s @ [q]"
  by (simp_all add: asked_def)

lemma ensure_hwnd_fields:
  assumes "ensure_hwnd w s = (r, s1)"
  shows "stdout s1 = stdout s \<and> stderr s1 = stderr s \<and> timers s1 = timers s \<and>
         interval s1 = interval s"
  using assms
  by (auto simp: ensure_hwnd_def if_hwnd_def split: option.splits if_splits sum.splits)

lemma gather_fields:
  assumes "gather w s = (r, s1)"
  shows "stdout s1 = stdout s \<and> stderr s1 = stderr s \<and> timers s1 = timers s \<and>
         interval s1 = interval s"
  using assms
  by (auto simp: gather_def if_hwnd_def Let_def
      split: option.splits if_splits sum.splits prod.splits)

lemma tick_try_fields:
  assumes "tick_try w s = (r, s1)"
  shows "stderr s1 = stderr s \<and> timers s1 = timers s \<and> interval s1 = interval s"
proof -
  obtain r0 s0 where e: "ensure_hwnd w s = (r0, s0)" by (cases "ensure_hwnd w s")
  obtain g s2 where g: "gather w s0 = (g, s2)" by (cases "gather w s0")
  show ?thesis
    using assms e g ensure_hwnd_fields [OF e] gather_fields [OF g]
    by (auto simp: tick_try_def split: option.splits sum.splits)
qed

lemma tick_running:
  assumes "\<not> stop_flag s" and "tick_try w s = (r, s1)"
  shows "stdout (snd (tick w s)) = stdout s1"
    and "stderr (snd (tick w s)) =
           (case r of None \<Rightarrow> stderr s | Some e \<Rightarrow> stderr s @ [''[error] '' @ exn_str e])"
    and "queries (snd (tick w s)) = queries s1"
    and "py_int (fmul (interval s) (Fin 1000)) = Inr ms \<Longrightarrow>
           fst (tick w s) = None \<and> timers (snd (tick w s)) = timers s @ [ms]"
    and "py_int (fmul (interval s) (Fin 1000)) = Inl x \<Longrightarrow>
           fst (tick w s) = Some x \<and> timers (snd (tick w s)) = timers s"
  using assms tick_try_fields [OF assms(2)]
  by (auto simp: tick_def Let_def split: option.splits sum.splits)

lemma tick_try_failure:
  assumes "ensure_hwnd w s = (None, s1)"
    and "get_cursor_pos w = Inl e \<or>
         (\<exists>h. hwnd s1 = Some h \<and> h \<noteq> 0 \<and>
              (get_window_rect w h = Inl e \<or> get_client_rect_screen w h = Inl e))"
  shows "\<exists>e' s2. tick_try w s = (Some e', s2) \<and> stdout s2 = stdout s \<and>
           e' \<in> {x. get_cursor_pos w = Inl x} \<union>
                {x. \<exists>h. hwnd s1 = Some h \<and> h \<noteq> 0 \<and>
                      (get_window_rect w h = Inl x \<or> get_client_rect_screen w h = Inl x)}"
proof -
  obtain g s2 where g: "gather w s1 = (g, s2)" by (cases "gather w s1")
  have out: "stdout s2 = stdout s"
    using gather_fields [OF g] ensure_hwnd_fields [OF assms(1)] by simp
  have "\<exists>e'. g = Inl e' \<and>
          e' \<in> {x. get_cursor_pos w = Inl x} \<union>
               {x. \<exists>h. hwnd s1 = Some h \<and> h \<noteq> 0 \<and>
                     (get_window_rect w h = Inl x \<or> get_client_rect_screen w h = Inl x)}"
    using g assms(2)
    by (auto simp: gather_def if_hwnd_def Let_def split: sum.splits prod.splits)
  then show ?thesis using assms(1) g out by (auto simp: tick_try_def)
qed

lemma adapter_messages:
  "get_cursor_pos w = Inl x \<Longrightarrow> x = OSError ''GetCursorPos failed''"
  "get_window_rect w h = Inl x \<Longrightarrow> x = OSError ''GetWindowRect failed''"
  "get_client_rect_screen w h = Inl x \<Longrightarrow>
     x = OSError ''GetClientRect failed'' \<or> x = OSError ''ClientToScreen failed''"
  by (auto simp: get_cursor_pos_def get_window_rect_def get_client_rect_screen_def Let_def
      split: option.splits)

text \<open>
  C1, as the code has it. In a running tick whose handle resolution did not raise, when the
  cursor, window rectangle or client rectangle query fails, nothing is substituted and no
  sample line is printed: standard output stays as it was, standard error gets one line
  \<open>[error] <message>\<close> with the message of the failed query, and whenever the interval in
  milliseconds is an integer the tick returns normally with exactly that one timer added.
\<close>

theorem query_failure_reported:
  assumes "\<not> stop_flag s" and "ensure_hwnd w s = (None, s1)"
    and "get_cursor_pos w = Inl e \<or>
         (\<exists>h. hwnd s1 = Some h \<and> h \<noteq> 0 \<and>
              (get_window_rect w h = Inl e \<or> get_client_rect_screen w h = Inl e))"
  shows "stdout (snd (tick w s)) = stdout s \<and>
         (\<exists>m \<in> {''GetCursorPos failed'', ''GetWindowRect failed'', ''GetClientRect failed'',
                  ''ClientToScreen failed''}.
            stderr (snd (tick w s)) = stderr s @ [''[error] '' @ m]) \<and>
         (\<forall>ms. py_int (fmul (interval s) (Fin 1000)) = Inr ms \<longrightarrow>
               fst (tick w s) = None \<and> timers (snd (tick w s)) = timers s @ [ms])"
proof -
  from tick_try_failure [OF assms(2,3)] obtain e' s2
    where t: "tick_try w s = (Some e', s2)" and out: "stdout s2 = stdout s"
      and e': "e' \<in> {x. get_cursor_pos w = Inl x} \<union>
                {x. \<exists>h. hwnd s1 = Some h \<and> h \<noteq> 0 \<and>
                      (get_window_rect w h = Inl x \<or> get_client_rect_screen w h = Inl x)}"
    by blast
  have m: "exn_str e' \<in> {''GetCursorPos failed'', ''GetWindowRect failed'',
             ''GetClientRect failed'', ''ClientToScreen failed''}"
    using e' adapter_messages by fastforce
  have "stderr (snd (tick w s)) = stderr s @ [''[error] '' @ exn_str e']"
    using tick_running(2) [OF assms(1) t] by simp
  then show ?thesis
    using m tick_running(1) [OF assms(1) t] tick_running(4) [OF assms(1) t] out by auto
qed


lemmas adapter_defs = get_cursor_pos_def get_window_rect_def get_client_rect_screen_def
  screen_to_client_def try_except_def

lemmas tick_try_defs = tick_try_def ensure_hwnd_def gather_def if_hwnd_def Let_def asked_def

lemmas world_defs = world_ok_def world_no_cursor_def world_no_window_rect_def
  world_no_translation_def world_no_handle_def world_zero_handle_def
  world_zero_handle_no_cursor_def

lemmas app_defs = app_running_def app_unresolved_def app_inf_def

lemma binade_hundred: "binade (3602879701896397 / 36028797018963968 * 1000) = 6"
  by (simp add: binade_def bitlen.simps)

lemma double_hundred:
  "double_of_rat (3602879701896397 / 36028797018963968 * 1000) = Fin 100"
  using binade_hundred by (simp add: double_defs)

lemma delay_tenth: "py_int (fmul (double_of_rat (1 / 10)) (Fin 1000)) = Inr 100"
  using double_hundred by (simp add: double_tenth)

lemma delay_infinite:
  "py_int (fmul PInf (Fin 1000)) = Inl (OverflowError ''cannot convert float infinity to integer'')"
  by simp

lemma tick_try_no_cursor:
  "tick_try world_no_cursor app_running =
     (Some (OSError ''GetCursorPos failed''), asked QCursorPos app_running)"
  by (simp add: tick_try_defs adapter_defs world_defs app_defs)

lemma tick_try_no_window_rect:
  "tick_try world_no_window_rect app_running =
     (Some (OSError ''GetWindowRect failed''),
      app_running\<lparr>queries := [QCursorPos, QWindowRect 66000]\<rparr>)"
  by (simp add: tick_try_defs adapter_defs world_defs app_defs)


lemma tick_try_ok:
  "tick_try world_ok app_running =
     (None, app_running\<lparr>stdout := [format_line \<lparr>now = 99 / 8, mouse = (1200, 640),
        wrect = (100, 100, 500, 340), crect = (108, 132, 492, 332), rel = (1092, 508)\<rparr>],
        queries := [QCursorPos, QWindowRect 66000, QClientRectScreen 66000,
          QScreenToClient 66000 1200 640, QPerfCounter]\<rparr>)"
  by (simp add: tick_try_defs adapter_defs world_defs app_defs)

lemma tick_try_no_translation:
  "tick_try world_no_translation app_running =
     (None, app_running\<lparr>stdout := [format_line \<lparr>now = 99 / 8, mouse = (1200, 640),
        wrect = (100, 100, 500, 340), crect = (108, 132, 492, 332), rel = (0, 0)\<rparr>],
        queries := [QCursorPos, QWindowRect 66000, QClientRectScreen 66000,
          QScreenToClient 66000 1200 640, QPerfCounter]\<rparr>)"
  by (simp add: tick_try_defs adapter_defs world_defs app_defs)




theorem query_failure_reported_witness:
  "\<not> stop_flag app_running \<and>
   ensure_hwnd world_no_window_rect app_running = (None, app_running) \<and>
   hwnd app_running = Some 66000 \<and>
   get_window_rect world_no_window_rect 66000 = Inl (OSError ''GetWindowRect failed'') \<and>
   stdout (snd (tick world_no_window_rect app_running)) = [] \<and>
   fst (tick world_no_window_rect app_running) = None \<and>
   timers (snd (tick world_no_window_rect app_running)) = [100]"
proof -
  have a: "\<not> stop_flag app_running" by (simp add: app_defs)
  have b: "ensure_hwnd world_no_window_rect app_running = (None, app_running)"
    by (simp add: ensure_hwnd_def if_hwnd_def app_defs)
  have c: "hwnd app_running = Some 66000" by (simp add: app_defs)
  have d: "get_window_rect world_no_window_rect 66000 = Inl (OSError ''GetWindowRect failed'')"
    by (simp add: adapter_defs world_defs)
  have e: "get_cursor_pos world_no_window_rect = Inl (OSError ''GetWindowRect failed'') \<or>
           (\<exists>h. hwnd app_running = Some h \<and> h \<noteq> 0 \<and>
               (get_window_rect world_no_window_rect h = Inl (OSError ''GetWindowRect failed'') \<or>
                get_client_rect_screen world_no_window_rect h =
                  Inl (OSError ''GetWindowRect failed'')))"
    using c d by simp
  have f: "py_int (fmul (interval app_running) (Fin 1000)) = Inr 100"
    using delay_tenth by (simp add: app_defs)
  from query_failure_reported [OF a b e] f
  have "stdout (snd (tick world_no_window_rect app_running)) = stdout app_running"
    and "fst (tick world_no_window_rect app_running) = None"
    and "timers (snd (tick world_no_window_rect app_running)) = timers app_running @ [100]"
    by blast+
  then show ?thesis using a b c d by (simp add: app_defs)
qed

text \<open>
  C1 as stated fails: with the cursor query failing, the tick prints the error line and
  no sample line at all.
\<close>

theorem zero_fallback_counterexample:
  "\<not> stop_flag app_running \<and>
   get_cursor_pos world_no_cursor = Inl (OSError ''GetCursorPos failed'') \<and>
   stdout (snd (tick world_no_cursor app_running)) = [] \<and>
   stderr (snd (tick world_no_cursor app_running)) = [''[error] GetCursorPos failed'']"
proof -
  have a: "\<not> stop_flag app_running" by (simp add: app_defs)
  have d: "get_cursor_pos world_no_cursor = Inl (OSError ''GetCursorPos failed'')"
    by (simp add: adapter_defs world_defs)
  show ?thesis
    using a d tick_running(1,2) [OF a tick_try_no_cursor]
    by (simp add: app_defs)
qed

subsection \<open>A tick without a window handle\<close>













subsection \<open>Scheduling the next tick\<close>

lemma tick_schedules_once:
  assumes "\<not> stop_flag s" and "py_int (fmul (interval s) (Fin 1000)) = Inr ms"
  shows "fst (tick w s) = None \<and> timers (snd (tick w s)) = timers s @ [ms]"
proof -
  obtain r s1 where t: "tick_try w s = (r, s1)" by (cases "tick_try w s")
  show ?thesis using tick_running(4) [OF assms(1) t assms(2)] .
qed

lemma tick_not_scheduled:
  assumes "\<not> stop_flag s" and "py_int (fmul (interval s) (Fin 1000)) = Inl x"
  shows "fst (tick w s) = Some x \<and> timers (snd (tick w s)) = timers s"
proof -
  obtain r s1 where t: "tick_try w s = (r, s1)" by (cases "tick_try w s")
  show ?thesis using tick_running(5) [OF assms(1) t assms(2)] .
qed

lemma parse_interval_inf: "parse_interval [''tracker_cli.py'', ''inf''] = (PInf, [])"
  by (simp add: parse_interval_def parser_defs)

lemma main_inf: "map_sum id interval (main world_ok [''tracker_cli.py'', ''inf'']) = Inr PInf"
proof -
  obtain a where "main world_ok [''tracker_cli.py'', ''inf''] = Inr a"
    and "interval a = py_max (double_of_rat (1 / 100)) (fst (parse_interval [''tracker_cli.py'', ''inf'']))"
    using main_total by blast
  then show ?thesis by (simp add: parse_interval_inf double_hundredth py_max_def)
qed

subsection \<open>An interval that overflows\<close>

lemma bitlen_unique: "2 ^ k \<le> n \<Longrightarrow> n < 2 ^ Suc k \<Longrightarrow> bitlen n = int k + 1"
proof (induction k arbitrary: n)
  case 0
  then have "n = 1" by simp
  then show ?case by (simp add: bitlen.simps)
next
  case (Suc k)
  have pos: "0 < n" using Suc.prems(1) by (smt (verit) zero_less_power)
  have lo: "2 ^ k \<le> n div 2" using Suc.prems(1) by simp
  have hi: "n div 2 < 2 ^ Suc k" using Suc.prems(2) by simp
  from Suc.IH [OF lo hi] show ?case using pos by (simp add: bitlen.simps [of n])
qed

lemma binade_large:
  assumes "1 \<le> q" and "2 ^ k \<le> \<lfloor>q\<rfloor>" and "\<lfloor>q\<rfloor> < 2 ^ Suc k"
  shows "binade q = int k"
  using assms bitlen_unique [OF assms(2,3)] by (simp add: binade_def)

lemma binade_1e306: "binade (10 ^ 306) = 1016"
  using binade_large [of "10 ^ 306" 1016] by simp

lemma double_1e306: "double_of_rat (10 ^ 306) = Fin (6413338752028713 * 2 ^ 964)"
  using binade_1e306 by (simp add: double_defs)

lemma float_of_str_1e306: "float_of_str ''1e306'' = Inr (Fin (6413338752028713 * 2 ^ 964))"
  using double_1e306 by (simp add: parser_defs)

lemma binade_1e309: "binade (6413338752028713 * 2 ^ 964 * 1000) = 1026"
  using binade_large [of "6413338752028713 * 2 ^ 964 * 1000" 1026] by simp

lemma fmul_1e306: "fmul (Fin (6413338752028713 * 2 ^ 964)) (Fin 1000) = PInf"
  using binade_1e309 by (simp add: double_defs)


lemma parse_interval_1e306:
  "parse_interval [''tracker_cli.py'', ''1e306''] = (Fin (6413338752028713 * 2 ^ 964), [])"
  using float_of_str_1e306 by (simp add: parse_interval_def)

lemma main_1e306:
  "map_sum id interval (main world_ok [''tracker_cli.py'', ''1e306'']) =
     Inr (Fin (6413338752028713 * 2 ^ 964))"
proof -
  obtain a where "main world_ok [''tracker_cli.py'', ''1e306''] = Inr a"
    and "interval a =
      py_max (double_of_rat (1 / 100)) (fst (parse_interval [''tracker_cli.py'', ''1e306'']))"
    using main_total by blast
  then show ?thesis by (simp add: parse_interval_1e306 double_hundredth py_max_Fin)
qed

text \<open>
  C2. The argument \<open>1e306\<close> is a positive number: \<open>float\<close> accepts it and the clamp
  leaves it. In the first tick, a running one in which every query succeeds, the product
  \<open>self.interval * 1000\<close> overflows to infinity and \<open>int\<close> raises \<open>OverflowError\<close>,
  outside the \<open>try\<close>: the exception leaves \<open>_tick\<close> and no timer is added, so the
  event loop has nothing left to fire.
\<close>

theorem overflowing_interval_not_rescheduled:
  "map_sum id interval (main world_ok [''tracker_cli.py'', ''1e306'']) =
     Inr (interval app_1e306) \<and>
   \<not> stop_flag app_1e306 \<and>
   fst (tick world_ok app_1e306) =
     Some (OverflowError ''cannot convert float infinity to integer'') \<and>
   timers (snd (tick world_ok app_1e306)) = [] \<and>
   timers (mainloop [world_ok, world_ok] (app_1e306\<lparr>timers := [0]\<rparr>)) = [] \<and>
   uncaught (mainloop [world_ok, world_ok] (app_1e306\<lparr>timers := [0]\<rparr>)) =
     [OverflowError ''cannot convert float infinity to integer'']"
proof -
  have a: "\<not> stop_flag app_1e306" by (simp add: app_1e306_def app_defs)
  have i: "py_int (fmul (interval app_1e306) (Fin 1000)) =
             Inl (OverflowError ''cannot convert float infinity to integer'')"
    using fmul_1e306 by (simp add: app_1e306_def app_defs)
  note t = tick_not_scheduled [OF a i, of world_ok]
  obtain s1 where s1: "tick world_ok app_1e306 =
      (Some (OverflowError ''cannot convert float infinity to integer''), s1)"
    and t1: "timers s1 = []"
    using t by (cases "tick world_ok app_1e306") (auto simp: app_1e306_def app_defs)
  have u: "uncaught s1 = []" and q: "\<not> quit_requested s1"
    using s1 a
    by (auto simp: tick_def tick_try_defs Let_def app_1e306_def app_defs
        split: prod.splits option.splits sum.splits if_splits)
  have e: "app_1e306\<lparr>timers := [0], timers := []\<rparr> = app_1e306"
    by (simp add: app_1e306_def app_defs)
  have m: "mainloop [world_ok, world_ok] (app_1e306\<lparr>timers := [0]\<rparr>) =
             s1\<lparr>uncaught := uncaught s1 @ [OverflowError ''cannot convert float infinity to integer'']\<rparr>"
    using s1 t1 q e by (simp add: app_1e306_def app_defs)
  have n: "interval app_1e306 = Fin (6413338752028713 * 2 ^ 964)"
    by (simp add: app_1e306_def)
  show ?thesis using a t m t1 u by (simp add: main_1e306 n) (simp add: app_1e306_def app_defs)
qed

text \<open>
  C9. The argument \<open>inf\<close> gives an infinite interval. With it and a failing cursor
  query, the tick prints the \<open>[error]\<close> line and no sample, and then the
  \<open>OverflowError\<close> leaves it: no next tick is scheduled.
\<close>

theorem query_failure_infinite_interval:
  "map_sum id interval (main world_ok [''tracker_cli.py'', ''inf'']) = Inr (interval app_inf) \<and>
   \<not> stop_flag app_inf \<and>
   get_cursor_pos world_no_cursor = Inl (OSError ''GetCursorPos failed'') \<and>
   stdout (snd (tick world_no_cursor app_inf)) = [] \<and>
   stderr (snd (tick world_no_cursor app_inf)) = [''[error] GetCursorPos failed''] \<and>
   fst (tick world_no_cursor app_inf) =
     Some (OverflowError ''cannot convert float infinity to integer'') \<and>
   timers (snd (tick world_no_cursor app_inf)) = []"
proof -
  have a: "\<not> stop_flag app_inf" by (simp add: app_defs)
  have d: "get_cursor_pos world_no_cursor = Inl (OSError ''GetCursorPos failed'')"
    by (simp add: adapter_defs world_defs)
  have t: "tick_try world_no_cursor app_inf =
             (Some (OSError ''GetCursorPos failed''), asked QCursorPos app_inf)"
    by (simp add: tick_try_defs adapter_defs world_defs app_defs)
  have i: "py_int (fmul (interval app_inf) (Fin 1000)) =
             Inl (OverflowError ''cannot convert float infinity to integer'')"
    by (simp add: app_defs)
  show ?thesis
    using a d tick_running(1,2) [OF a t] tick_running(5) [OF a t i] main_inf
    by (simp add: app_defs)
qed

text \<open>
  What C9 says of the substitution holds for every interval: a failing translation gives
  (0, 0) and the sample line is printed, with nothing on standard error.
\<close>

lemma translation_failure_zero:
  assumes "\<not> stop_flag s" and "hwnd s = Some h" and "h \<noteq> 0"
    and "get_cursor_pos w = Inr (mx, my)" and "get_window_rect w h = Inr wr"
    and "get_client_rect_screen w h = Inr cr" and "screen_to_client w h mx my = Inl e"
  shows "stdout (snd (tick w s)) =
           stdout s @ [format_line \<lparr>now = perf_counter w, mouse = (mx, my), wrect = wr,
                         crect = cr, rel = (0, 0)\<rparr>] \<and>
         stderr (snd (tick w s)) = stderr s"
proof -
  have o: "is_OSError e"
    using assms(7) by (auto simp: screen_to_client_def split: option.splits)
  have t: "tick_try w s =
     (None, s\<lparr>stdout := stdout s @ [format_line \<lparr>now = perf_counter w, mouse = (mx, my),
                wrect = wr, crect = cr, rel = (0, 0)\<rparr>],
              queries := queries s @ [QCursorPos, QWindowRect h, QClientRectScreen h,
                QScreenToClient h mx my, QPerfCounter]\<rparr>)"
    using assms(2-7) o by (simp add: tick_try_defs try_except_def)
  show ?thesis using tick_running(1,2) [OF assms(1) t] by simp
qed

lemma translation_success:
  assumes "\<not> stop_flag s" and "hwnd s = Some h" and "h \<noteq> 0"
    and "get_cursor_pos w = Inr (mx, my)" and "get_window_rect w h = Inr wr"
    and "get_client_rect_screen w h = Inr cr" and "screen_to_client w h mx my = Inr r"
  shows "stdout (snd (tick w s)) =
           stdout s @ [format_line \<lparr>now = perf_counter w, mouse = (mx, my), wrect = wr,
                         crect = cr, rel = r\<rparr>] \<and>
         stderr (snd (tick w s)) = stderr s"
proof -
  have t: "tick_try w s =
     (None, s\<lparr>stdout := stdout s @ [format_line \<lparr>now = perf_counter w, mouse = (mx, my),
                wrect = wr, crect = cr, rel = r\<rparr>],
              queries := queries s @ [QCursorPos, QWindowRect h, QClientRectScreen h,
                QScreenToClient h mx my, QPerfCounter]\<rparr>)"
    using assms(2-7) by (simp add: tick_try_defs try_except_def)
  show ?thesis using tick_running(1,2) [OF assms(1) t] by simp
qed


subsection \<open>The sample line\<close>













end
